theory Spec2Isabelle
  imports Complex_Main "HOL-Library.Word" "HOL-Library.Sublist"
begin

section \<open>JavaScript strings\<close>

text \<open>
  A JavaScript string is a sequence of UTF-16 code units; \<open>length\<close>, \<open>slice\<close>,
  \<open>lastIndexOf\<close> and \<open>trim\<close> all count and compare code units.
\<close>

type_synonym jschar = "16 word"
type_synonym jsstring = "jschar list"

text \<open>An ASCII literal of the source, as code units.\<close>

definition js :: "string \<Rightarrow> jsstring" where
  "js s = map of_char s"

text \<open>
  \<open>String.prototype.slice(start, end)\<close>: a negative index counts from the end, both
  indices are clamped to the string, and an empty range gives the empty string.
\<close>

definition slice_str :: "jsstring \<Rightarrow> int \<Rightarrow> int \<Rightarrow> jsstring" where
  "slice_str s start end =
     (let len = int (length s);
          from = (if start < 0 then max (len + start) 0 else min start len);
          to = (if end < 0 then max (len + end) 0 else min end len)
      in take (nat (to - from)) (drop (nat from) s))"

text \<open>
  \<open>String.prototype.lastIndexOf(c)\<close> for a one-character search string: the greatest
  index holding \<open>c\<close>, or \<open>-1\<close> when there is none.
\<close>

fun lastIndexOf :: "jsstring \<Rightarrow> jschar \<Rightarrow> int" where
  "lastIndexOf [] c = -1"
| "lastIndexOf (x # xs) c =
     (let r = lastIndexOf xs c
      in if r \<noteq> -1 then r + 1 else if x = c then 0 else -1)"

text \<open>
  \<open>String.prototype.trim()\<close> removes the ECMAScript WhiteSpace and LineTerminator code
  points from both ends.
\<close>

definition isWhiteSpace :: "jschar \<Rightarrow> bool" where
  "isWhiteSpace c \<longleftrightarrow>
     c \<in> {0x0009, 0x000A, 0x000B, 0x000C, 0x000D, 0x0020, 0x00A0, 0x1680,
          0x2000, 0x2001, 0x2002, 0x2003, 0x2004, 0x2005, 0x2006, 0x2007,
          0x2008, 0x2009, 0x200A, 0x2028, 0x2029, 0x202F, 0x205F, 0x3000, 0xFEFF}"

definition trim :: "jsstring \<Rightarrow> jsstring" where
  "trim s = rev (dropWhile isWhiteSpace (rev (dropWhile isWhiteSpace s)))"

section \<open>The chunker\<close>

definition chunkSize :: int where
  "chunkSize = 1000"

definition overlap :: int where
  "overlap = 200"

text \<open>
  One pass through the body of the \<open>while\<close> loop of \<open>chunkText\<close>, up to the trim:
  the window's end index and the chunk cut from the text.
\<close>

definition chunkBody :: "jsstring \<Rightarrow> int \<Rightarrow> int \<times> jsstring" where
  "chunkBody text startIndex =
     (let endIndex = startIndex + chunkSize;
          chunk = slice_str text startIndex endIndex
      in if endIndex < int (length text)
         then (let lastPeriod = lastIndexOf chunk 0x2E;
                   lastQuestion = lastIndexOf chunk 0x3F;
                   lastExclamation = lastIndexOf chunk 0x21;
                   lastBreak = max lastPeriod (max lastQuestion lastExclamation)
               in if lastBreak \<noteq> -1 \<and> lastBreak > chunkSize - overlap
                  then (startIndex + lastBreak + 1,
                        slice_str text startIndex (startIndex + lastBreak + 1))
                  else (endIndex, chunk))
         else (endIndex, chunk))"

text \<open>
  The \<open>while\<close> loop. The source gives no bound on the number of passes, so the loop is a
  partial function: \<open>None\<close> is a loop that never returns.
\<close>

partial_function (option) chunkLoop :: "jsstring \<Rightarrow> int \<Rightarrow> jsstring list \<Rightarrow> jsstring list option" where
  "chunkLoop text startIndex chunks =
     (if startIndex < int (length text)
      then (case chunkBody text startIndex of
              (endIndex, chunk) \<Rightarrow> chunkLoop text (endIndex - overlap) (chunks @ [trim chunk]))
      else Some chunks)"

declare chunkLoop.simps [code]

definition chunkText :: "jsstring \<Rightarrow> jsstring list option" where
  "chunkText text = chunkLoop text 0 []"

text \<open>The sentence-terminating characters \<open>.\<close>, \<open>?\<close> and \<open>!\<close>.\<close>

definition isTerminator :: "jschar \<Rightarrow> bool" where
  "isTerminator c \<longleftrightarrow> c = 0x2E \<or> c = 0x3F \<or> c = 0x21"

text \<open>The value of \<open>lastBreak\<close> that the loop body computes from a chunk.\<close>

definition lastBreakOf :: "jsstring \<Rightarrow> int" where
  "lastBreakOf chunk = max (lastIndexOf chunk 0x2E) (max (lastIndexOf chunk 0x3F) (lastIndexOf chunk 0x21))"

section \<open>The external services\<close>

text \<open>
  The handlers reach the file system, the embedding and completion services and the
  database only through calls whose answers the program does not control. Every such call
  is an event of a trace, in call order, and the answer comes from an environment that may
  depend on everything that happened before. A rejected promise or an error object is
  \<open>Inl\<close> of its message. Output of \<open>console.log\<close> is left out; \<open>console.error\<close> is an event.
\<close>

type_synonym embedding = "rat list"
type_synonym buffer = "8 word list"

text \<open>The fields of multer's \<open>req.file\<close> that the handlers read.\<close>

record upload_file =
  file_originalname :: jsstring
  file_filename :: jsstring
  file_path :: jsstring

record new_document =
  new_filename :: jsstring
  new_original_name :: jsstring
  new_upload_date :: jsstring

record document =
  doc_id :: jsstring
  doc_filename :: jsstring
  doc_original_name :: jsstring
  doc_upload_date :: jsstring

text \<open>A row for the \<open>chunks\<close> table; \<open>None\<close> is an \<open>undefined\<close> embedding.\<close>

record chunk_row =
  row_document_id :: jsstring
  row_chunk_index :: nat
  row_content :: jsstring
  row_embedding :: "embedding option"

text \<open>The fields of a row of \<open>match_chunks\<close> that the handlers read.\<close>

record match =
  match_content :: jsstring
  match_similarity :: rat

record chat_message =
  msg_role :: jsstring
  msg_content :: jsstring

record chat_request =
  req_model :: jsstring
  req_messages :: "chat_message list"
  req_temperature :: rat
  req_max_tokens :: int

datatype event =
    ReadFile jsstring
  | ReadFileUtf8 jsstring
  | PdfParse buffer
  | ExtractRawText buffer
  | EmbeddingsCreate jsstring jsstring
  | ChatCompletionsCreate chat_request
  | InsertDocument new_document
  | InsertChunks "chunk_row list"
  | RpcMatchChunks embedding int
  | Unlink jsstring
  | ConsoleError "jsstring list"

text \<open>The calls made so far and the two tables of the database.\<close>

record world =
  trace :: "event list"
  db_documents :: "document list"
  db_chunks :: "chunk_row list"

definition emit :: "event \<Rightarrow> world \<Rightarrow> world" where
  "emit e w = w\<lparr>trace := trace w @ [e]\<rparr>"

text \<open>
  The environment. \<open>ext_lower\<close> is \<open>path.extname(name).toLowerCase()\<close>; \<open>date_now\<close> is
  \<open>new Date().toISOString()\<close>; \<open>insert_document\<close> answers with the row the
  database recorded, as \<open>.select().single()\<close> returns it; \<open>rpc_match_chunks\<close> answers with \<open>None\<close> for \<open>data: null\<close>.
\<close>

record env =
  ext_lower :: "jsstring \<Rightarrow> jsstring"
  date_now :: "world \<Rightarrow> jsstring"
  fs_readFile :: "world \<Rightarrow> jsstring \<Rightarrow> jsstring + buffer"
  fs_readFile_utf8 :: "world \<Rightarrow> jsstring \<Rightarrow> jsstring + jsstring"
  fs_unlink :: "world \<Rightarrow> jsstring \<Rightarrow> jsstring option"
  pdf_parse :: "world \<Rightarrow> buffer \<Rightarrow> jsstring + jsstring"
  mammoth_extractRawText :: "world \<Rightarrow> buffer \<Rightarrow> jsstring + jsstring"
  embeddings_create :: "world \<Rightarrow> jsstring \<Rightarrow> jsstring + embedding"
  chat_completions_create :: "world \<Rightarrow> chat_request \<Rightarrow> jsstring + jsstring"
  insert_document :: "world \<Rightarrow> new_document \<Rightarrow> jsstring + document"
  insert_chunks :: "world \<Rightarrow> chunk_row list \<Rightarrow> jsstring option"
  rpc_match_chunks :: "world \<Rightarrow> embedding \<Rightarrow> int \<Rightarrow> jsstring + match list option"

section \<open>Parsing, embedding, retrieval and generation\<close>

definition parseFile :: "env \<Rightarrow> upload_file \<Rightarrow> world \<Rightarrow> (jsstring + jsstring) \<times> world" where
  "parseFile env file w =
     (let ext = ext_lower env (file_originalname file);
          tried =
            (if ext = js ''.pdf'' then
               (let w1 = emit (ReadFile (file_path file)) w
                in case fs_readFile env w (file_path file) of
                     Inl m \<Rightarrow> (Inl m, w1)
                   | Inr pdfData \<Rightarrow> (pdf_parse env w1 pdfData, emit (PdfParse pdfData) w1))
             else if ext = js ''.docx'' then
               (let w1 = emit (ReadFile (file_path file)) w
                in case fs_readFile env w (file_path file) of
                     Inl m \<Rightarrow> (Inl m, w1)
                   | Inr docxData \<Rightarrow>
                       (mammoth_extractRawText env w1 docxData, emit (ExtractRawText docxData) w1))
             else if ext = js ''.txt'' then
               (fs_readFile_utf8 env w (file_path file), emit (ReadFileUtf8 (file_path file)) w)
             else (Inl (js ''Unsupported file type''), w))
      in case tried of
           (Inl m, w') \<Rightarrow> (Inl (js ''Error parsing file: '' @ m), w')
         | (Inr text, w') \<Rightarrow> (Inr text, w'))"

definition embedding_model :: jsstring where
  "embedding_model = js ''text-embedding-3-small''"

text \<open>The \<open>for\<close> loop of \<open>getEmbeddings\<close>: one call for each chunk, stopping at the first that throws.\<close>

fun getEmbeddings_loop ::
  "env \<Rightarrow> jsstring list \<Rightarrow> embedding list \<Rightarrow> world \<Rightarrow> (jsstring + embedding list) \<times> world" where
  "getEmbeddings_loop env [] embeddings w = (Inr embeddings, w)"
| "getEmbeddings_loop env (chunk # rest) embeddings w =
     (case embeddings_create env w chunk of
        Inl m \<Rightarrow> (Inl m, emit (EmbeddingsCreate chunk embedding_model) w)
      | Inr v \<Rightarrow>
          getEmbeddings_loop env rest (embeddings @ [v]) (emit (EmbeddingsCreate chunk embedding_model) w))"

definition getEmbeddings ::
  "env \<Rightarrow> jsstring list \<Rightarrow> world \<Rightarrow> (jsstring + embedding list) \<times> world" where
  "getEmbeddings env chunks w =
     (case getEmbeddings_loop env chunks [] w of
        (Inl m, w') \<Rightarrow> (Inl (js ''Error generating embeddings: '' @ m), w')
      | (Inr embeddings, w') \<Rightarrow> (Inr embeddings, w'))"

definition getEmbedding :: "env \<Rightarrow> jsstring \<Rightarrow> world \<Rightarrow> (jsstring + embedding) \<times> world" where
  "getEmbedding env text w =
     (case embeddings_create env w text of
        Inl m \<Rightarrow> (Inl (js ''Error generating embedding: '' @ m), emit (EmbeddingsCreate text embedding_model) w)
      | Inr v \<Rightarrow> (Inr v, emit (EmbeddingsCreate text embedding_model) w))"

definition getSimilarChunks ::
  "env \<Rightarrow> embedding \<Rightarrow> int \<Rightarrow> world \<Rightarrow> (jsstring + match list option) \<times> world" where
  "getSimilarChunks env embedding limit w =
     (case rpc_match_chunks env w embedding limit of
        Inl m \<Rightarrow> (Inl (js ''Error finding similar chunks: '' @ m), emit (RpcMatchChunks embedding limit) w)
      | Inr chunks \<Rightarrow> (Inr chunks, emit (RpcMatchChunks embedding limit) w))"

text \<open>A number as the template literal prints it, and \<open>Array.prototype.join\<close>.\<close>

fun string_of_nat :: "nat \<Rightarrow> jsstring" where
  "string_of_nat n =
     (if n < 10 then [of_nat (48 + n)]
      else string_of_nat (n div 10) @ [of_nat (48 + n mod 10)])"

fun join :: "jsstring list \<Rightarrow> jsstring \<Rightarrow> jsstring" where
  "join [] sep = []"
| "join [x] sep = x"
| "join (x # y # ys) sep = x @ sep @ join (y # ys) sep"

definition system_content :: jsstring where
  "system_content = js ''You are a helpful assistant that answers questions based solely on the provided context. If the context doesn't contain the answer, acknowledge that you don't have enough information.''"

definition build_prompt :: "jsstring \<Rightarrow> match list \<Rightarrow> jsstring" where
  "build_prompt question contexts =
     js ''You are an assistant. Answer the question using only the provided context. If you cannot find the answer in the context, say \"I don't have enough information to answer this question.\"''
     @ [0x0A, 0x0A] @ js ''Context:'' @ [0x0A]
     @ join (map (\<lambda>(ctx, i). js ''['' @ string_of_nat (i + 1) @ js ''] '' @ match_content ctx)
               (zip contexts [0..<length contexts])) [0x0A, 0x0A]
     @ [0x0A, 0x0A] @ js ''Question: '' @ question
     @ [0x0A, 0x0A] @ js ''Answer:''"

definition generateResponse ::
  "env \<Rightarrow> jsstring \<Rightarrow> match list \<Rightarrow> world \<Rightarrow> (jsstring + jsstring) \<times> world" where
  "generateResponse env question contexts w =
     (let prompt = build_prompt question contexts;
          request = \<lparr>req_model = js ''gpt-4'',
                     req_messages = [\<lparr>msg_role = js ''system'', msg_content = system_content\<rparr>,
                                     \<lparr>msg_role = js ''user'', msg_content = prompt\<rparr>],
                     req_temperature = 7 / 10,
                     req_max_tokens = 500\<rparr>
      in case chat_completions_create env w request of
           Inl m \<Rightarrow> (Inl (js ''Error generating GPT response: '' @ m), emit (ChatCompletionsCreate request) w)
         | Inr content \<Rightarrow> (Inr (trim content), emit (ChatCompletionsCreate request) w))"

section \<open>The request handlers\<close>

record 'b response =
  http_status :: nat
  http_body :: 'b

datatype upload_body =
    ErrorBody jsstring
  | Processed jsstring document nat

text \<open>The rows that the upload handler builds for the \<open>chunks\<close> table.\<close>

definition chunksToInsert :: "document \<Rightarrow> jsstring list \<Rightarrow> embedding list \<Rightarrow> chunk_row list" where
  "chunksToInsert document chunks embeddings =
     map (\<lambda>(content, index).
            \<lparr>row_document_id = doc_id document,
             row_chunk_index = index,
             row_content = content,
             row_embedding = (if index < length embeddings then Some (embeddings ! index) else None)\<rparr>)
         (zip chunks [0..<length chunks])"

text \<open>
  The two inserts of the upload handler. A successful insert adds its rows to the table; an
  insert that answers with an error adds none.
\<close>

definition store ::
  "env \<Rightarrow> upload_file \<Rightarrow> jsstring list \<Rightarrow> embedding list \<Rightarrow> world \<Rightarrow> (jsstring + document) \<times> world" where
  "store env file chunks embeddings w =
     (let new = \<lparr>new_filename = file_filename file,
                 new_original_name = file_originalname file,
                 new_upload_date = date_now env w\<rparr>;
          w1 = emit (InsertDocument new) w
      in case insert_document env w new of
           Inl m \<Rightarrow> (Inl (js ''Error inserting document: '' @ m), w1)
         | Inr document \<Rightarrow>
             (let w2 = w1\<lparr>db_documents := db_documents w1 @ [document]\<rparr>;
                  rows = chunksToInsert document chunks embeddings;
                  w3 = emit (InsertChunks rows) w2
              in case insert_chunks env w2 rows of
                   Some m \<Rightarrow> (Inl (js ''Error inserting chunks: '' @ m), w3)
                 | None \<Rightarrow> (Inr document, w3\<lparr>db_chunks := db_chunks w3 @ rows\<rparr>)))"

text \<open>The \<open>catch\<close> block of the upload handler.\<close>

definition upload_catch :: "env \<Rightarrow> upload_file \<Rightarrow> jsstring \<Rightarrow> world \<Rightarrow> upload_body response \<times> world" where
  "upload_catch env file message w =
     (let w1 = emit (Unlink (file_path file)) w;
          w2 = (case fs_unlink env w (file_path file) of
                  None \<Rightarrow> w1
                | Some m \<Rightarrow> emit (ConsoleError [m]) w1)
      in (\<lparr>http_status = 500, http_body = ErrorBody message\<rparr>, w2))"

text \<open>
  \<open>POST /api/upload\<close>, given \<open>req.file\<close>. The result is \<open>None\<close> when the handler never
  responds.
\<close>

definition upload :: "env \<Rightarrow> upload_file option \<Rightarrow> world \<Rightarrow> (upload_body response \<times> world) option" where
  "upload env req_file w =
     (case req_file of
        None \<Rightarrow> Some (\<lparr>http_status = 400, http_body = ErrorBody (js ''No file uploaded'')\<rparr>, w)
      | Some file \<Rightarrow>
          (case parseFile env file w of
             (Inl m, w1) \<Rightarrow> Some (upload_catch env file m w1)
           | (Inr text, w1) \<Rightarrow>
               (case chunkText text of
                  None \<Rightarrow> None
                | Some chunks \<Rightarrow>
                    (case getEmbeddings env chunks w1 of
                       (Inl m, w2) \<Rightarrow> Some (upload_catch env file m w2)
                     | (Inr embeddings, w2) \<Rightarrow>
                         (case store env file chunks embeddings w2 of
                            (Inl m, w3) \<Rightarrow> Some (upload_catch env file m w3)
                          | (Inr document, w3) \<Rightarrow>
                              (case fs_unlink env w3 (file_path file) of
                                 Some m \<Rightarrow>
                                   Some (upload_catch env file m (emit (Unlink (file_path file)) w3))
                               | None \<Rightarrow>
                                   Some (\<lparr>http_status = 200,
                                          http_body = Processed (js ''File processed and stored successfully'')
                                                        document (length chunks)\<rparr>,
                                         emit (Unlink (file_path file)) w3)))))))"

datatype ask_body =
    AskError jsstring
  | Answer jsstring "(jsstring \<times> rat) list"

definition no_information :: jsstring where
  "no_information = js ''I don't have any relevant information to answer this question.''"

text \<open>\<open>POST /api/ask\<close>, given \<open>req.body.question\<close> (\<open>None\<close> when the field is missing).\<close>

definition ask :: "env \<Rightarrow> jsstring option \<Rightarrow> world \<Rightarrow> ask_body response \<times> world" where
  "ask env question w =
     (case question of
        None \<Rightarrow> (\<lparr>http_status = 400, http_body = AskError (js ''Question is required'')\<rparr>, w)
      | Some q \<Rightarrow>
          if q = [] then (\<lparr>http_status = 400, http_body = AskError (js ''Question is required'')\<rparr>, w)
          else
            (let caught = (\<lambda>m w'. (\<lparr>http_status = 500, http_body = AskError m\<rparr>,
                                     emit (ConsoleError [js ''Error processing question:'', m]) w'))
             in case getEmbedding env q w of
                  (Inl m, w1) \<Rightarrow> caught m w1
                | (Inr questionEmbedding, w1) \<Rightarrow>
                    (case getSimilarChunks env questionEmbedding 5 w1 of
                       (Inl m, w2) \<Rightarrow> caught m w2
                     | (Inr None, w2) \<Rightarrow>
                         (\<lparr>http_status = 200, http_body = Answer no_information []\<rparr>, w2)
                     | (Inr (Some similarChunks), w2) \<Rightarrow>
                         if length similarChunks = 0
                         then (\<lparr>http_status = 200, http_body = Answer no_information []\<rparr>, w2)
                         else
                           (case generateResponse env q similarChunks w2 of
                              (Inl m, w3) \<Rightarrow> caught m w3
                            | (Inr answer, w3) \<Rightarrow>
                                (\<lparr>http_status = 200,
                                   http_body = Answer answer
                                     (map (\<lambda>chunk. (match_content chunk, match_similarity chunk))
                                        similarChunks)\<rparr>, w3)))))"

record slack_body =
  response_type :: jsstring
  slack_text :: jsstring

text \<open>\<open>POST /api/slack/ask\<close>, given \<open>req.body.text\<close> (\<open>None\<close> when the field is missing).\<close>

definition slack_ask :: "env \<Rightarrow> jsstring option \<Rightarrow> world \<Rightarrow> slack_body response \<times> world" where
  "slack_ask env text w =
     (let please = (\<lparr>http_status = 200,
                      http_body = \<lparr>response_type = js ''ephemeral'',
                                   slack_text = js ''Please provide a question after the slash command.''\<rparr>\<rparr>, w)
      in case text of
        None \<Rightarrow> please
      | Some t \<Rightarrow>
          if t = [] then please
          else
            (let caught = (\<lambda>m w'. (\<lparr>http_status = 200,
                                      http_body = \<lparr>response_type = js ''ephemeral'',
                                                   slack_text = js ''Error: '' @ m\<rparr>\<rparr>,
                                     emit (ConsoleError [js ''Error processing Slack question:'', m]) w'))
             in case getEmbedding env t w of
                  (Inl m, w1) \<Rightarrow> caught m w1
                | (Inr questionEmbedding, w1) \<Rightarrow>
                    (case getSimilarChunks env questionEmbedding 5 w1 of
                       (Inl m, w2) \<Rightarrow> caught m w2
                     | (Inr None, w2) \<Rightarrow>
                         (\<lparr>http_status = 200,
                            http_body = \<lparr>response_type = js ''in_channel'', slack_text = no_information\<rparr>\<rparr>, w2)
                     | (Inr (Some similarChunks), w2) \<Rightarrow>
                         if length similarChunks = 0
                         then (\<lparr>http_status = 200,
                                 http_body = \<lparr>response_type = js ''in_channel'',
                                              slack_text = no_information\<rparr>\<rparr>, w2)
                         else
                           (case generateResponse env t similarChunks w2 of
                              (Inl m, w3) \<Rightarrow> caught m w3
                            | (Inr answer, w3) \<Rightarrow>
                                (\<lparr>http_status = 200,
                                   http_body = \<lparr>response_type = js ''in_channel'',
                                                slack_text = answer\<rparr>\<rparr>, w3)))))"

section \<open>Concrete runs\<close>

text \<open>
  An environment in which every call succeeds: a text file holding \<open>Hello.\<close>, one embedding,
  and a database that records the document as sent, under the identifier \<open>d1\<close>.
\<close>

definition hello_file :: upload_file where
  "hello_file = \<lparr>file_originalname = js ''hello.txt'',
                  file_filename = js ''file-1.txt'',
                  file_path = js ''uploads/file-1.txt''\<rparr>"

definition env_ok :: env where
  "env_ok = \<lparr>ext_lower = (\<lambda>name. js ''.txt''),
             date_now = (\<lambda>w. js ''2024-03-05T00:00:00.000Z''),
             fs_readFile = (\<lambda>w p. Inr []),
             fs_readFile_utf8 = (\<lambda>w p. Inr (js ''Hello.'')),
             fs_unlink = (\<lambda>w p. None),
             pdf_parse = (\<lambda>w b. Inr []),
             mammoth_extractRawText = (\<lambda>w b. Inr []),
             embeddings_create = (\<lambda>w t. Inr [1 / 2]),
             chat_completions_create = (\<lambda>w r. Inr (js '' An answer. '')),
             insert_document = (\<lambda>w d. Inr \<lparr>doc_id = js ''d1'',
                                              doc_filename = new_filename d,
                                              doc_original_name = new_original_name d,
                                              doc_upload_date = new_upload_date d\<rparr>),
             insert_chunks = (\<lambda>w rows. None),
             rpc_match_chunks = (\<lambda>w e k. Inr (Some []))\<rparr>"

definition world0 :: world where
  "world0 = \<lparr>trace = [], db_documents = [], db_chunks = []\<rparr>"

text \<open>The same environment, with the insert into \<open>chunks\<close> answering with an error.\<close>

definition env_chunks_fail :: env where
  "env_chunks_fail = env_ok\<lparr>insert_chunks := (\<lambda>w rows. Some (js ''insert failed''))\<rparr>"

text \<open>The same environment, with every \<open>unlink\<close> rejected.\<close>

definition env_unlink_fails :: env where
  "env_unlink_fails = env_ok\<lparr>fs_unlink := (\<lambda>w p. Some (js ''EPERM''))\<rparr>"

text \<open>The same environment, with the embedding of \<open>b\<close> failing.\<close>

definition env_embed_fails :: env where
  "env_embed_fails =
     env_ok\<lparr>embeddings_create := (\<lambda>w t. if t = js ''b'' \<or> t = js ''Hello.'' then Inl (js ''rate limit'') else Inr [1 / 2])\<rparr>"

section \<open>Notions used to state the properties\<close>

text \<open>The calls to the embedding service for a list of texts, in order, and the world after them.\<close>

definition embedding_calls :: "jsstring list \<Rightarrow> event list" where
  "embedding_calls texts = map (\<lambda>t. EmbeddingsCreate t embedding_model) texts"

definition after_calls :: "world \<Rightarrow> jsstring list \<Rightarrow> world" where
  "after_calls w texts = w\<lparr>trace := trace w @ embedding_calls texts\<rparr>"

section \<open>Properties of the string operations\<close>

lemma lastIndexOf_bounds: "-1 \<le> lastIndexOf s c \<and> lastIndexOf s c < int (length s)"
  by (induction s) (auto simp: Let_def)

lemma lastIndexOf_none: "lastIndexOf s c = -1 \<longleftrightarrow> c \<notin> set s"
proof (induction s)
  case Nil
  show ?case by simp
next
  case (Cons x xs)
  have "-1 \<le> lastIndexOf xs c" by (simp add: lastIndexOf_bounds)
  with Cons show ?case by (auto simp: Let_def)
qed

lemma lastIndexOf_found:
  "lastIndexOf s c \<noteq> -1 \<Longrightarrow>
     s ! nat (lastIndexOf s c) = c \<and> (\<forall>j. nat (lastIndexOf s c) < j \<and> j < length s \<longrightarrow> s ! j \<noteq> c)"
proof (induction s)
  case Nil
  then show ?case by simp
next
  case (Cons x xs)
  show ?case
  proof (cases "lastIndexOf xs c = -1")
    case True
    with Cons.prems have "x = c" by (simp add: Let_def split: if_splits)
    moreover from True have "c \<notin> set xs" by (simp add: lastIndexOf_none)
    ultimately show ?thesis using True by (auto simp: Let_def nth_Cons split: nat.splits)
  next
    case False
    with Cons.IH have ih: "xs ! nat (lastIndexOf xs c) = c"
      "\<forall>j. nat (lastIndexOf xs c) < j \<and> j < length xs \<longrightarrow> xs ! j \<noteq> c" by auto
    have nn: "0 \<le> lastIndexOf xs c" using False lastIndexOf_bounds [of xs c] by linarith
    then have eq: "nat (lastIndexOf xs c + 1) = Suc (nat (lastIndexOf xs c))" by linarith
    show ?thesis using False ih eq by (auto simp: Let_def nth_Cons split: nat.splits)
  qed
qed

lemma lastIndexOf_eqI:
  assumes "p < length s" "s ! p = c" "\<forall>j. p < j \<and> j < length s \<longrightarrow> s ! j \<noteq> c"
  shows "lastIndexOf s c = int p"
proof -
  have "c \<in> set s" using assms(1,2) by (auto simp: in_set_conv_nth)
  then have ne: "lastIndexOf s c \<noteq> -1" by (simp add: lastIndexOf_none)
  let ?q = "nat (lastIndexOf s c)"
  have b: "0 \<le> lastIndexOf s c" "lastIndexOf s c < int (length s)"
    using ne lastIndexOf_bounds [of s c] by linarith+
  have q: "s ! ?q = c" "\<forall>j. ?q < j \<and> j < length s \<longrightarrow> s ! j \<noteq> c"
    using lastIndexOf_found [OF ne] by auto
  have "\<not> p < ?q" using q(1) assms(3) b by auto
  moreover have "\<not> ?q < p" using q(2) assms(1,2) by auto
  ultimately have "?q = p" by simp
  then show ?thesis using b by simp
qed

lemma lastIndexOf_le:
  assumes "\<forall>j. p < j \<and> j < length w \<longrightarrow> w ! j \<noteq> c"
  shows "lastIndexOf w c \<le> int p"
proof (cases "lastIndexOf w c = -1")
  case True
  then show ?thesis by simp
next
  case False
  have b: "0 \<le> lastIndexOf w c" "lastIndexOf w c < int (length w)"
    using False lastIndexOf_bounds [of w c] by linarith+
  have "w ! nat (lastIndexOf w c) = c" using lastIndexOf_found [OF False] by simp
  with assms b have "\<not> p < nat (lastIndexOf w c)" by auto
  then show ?thesis by linarith
qed

lemma slice_nonneg:
  "0 \<le> start \<Longrightarrow> start \<le> end \<Longrightarrow> slice_str s start end = take (nat (end - start)) (drop (nat start) s)"
  by (auto simp: slice_str_def Let_def min_def)

lemma length_slice_le:
  "0 \<le> start \<Longrightarrow> start \<le> end \<Longrightarrow> length (slice_str s start end) \<le> nat (end - start)"
  by (simp add: slice_nonneg)

lemma length_trim: "length (trim s) \<le> length s"
proof -
  have "length (dropWhile isWhiteSpace (rev (dropWhile isWhiteSpace s))) \<le> length (rev (dropWhile isWhiteSpace s))"
    by (rule length_dropWhile_le)
  also have "\<dots> \<le> length s" by (simp add: length_dropWhile_le)
  finally show ?thesis by (simp add: trim_def)
qed

lemma trim_id:
  assumes "s \<noteq> []" "\<not> isWhiteSpace (hd s)" "\<not> isWhiteSpace (last s)"
  shows "trim s = s"
proof -
  have 1: "dropWhile isWhiteSpace s = s" using assms(1,2) by (cases s) auto
  have "rev s \<noteq> []" "\<not> isWhiteSpace (hd (rev s))" using assms(1,3) by (auto simp: hd_rev)
  then have 2: "dropWhile isWhiteSpace (rev s) = rev s" by (cases "rev s") auto
  show ?thesis by (simp add: trim_def 1 2)
qed

lemma not_ws_a: "\<not> isWhiteSpace 0x61" "\<not> isWhiteSpace 0x2E"
  by (simp_all add: isWhiteSpace_def)

lemma isTerminator_chars: "isTerminator 0x2E" "\<not> isTerminator 0x61"
  by (simp_all add: isTerminator_def)

section \<open>Properties of the chunker\<close>

subsection \<open>The loop body\<close>

lemma lastBreakOf_le:
  assumes "\<forall>j. p < j \<and> j < length w \<longrightarrow> \<not> isTerminator (w ! j)"
  shows "lastBreakOf w \<le> int p"
proof -
  have "lastIndexOf w c \<le> int p" if "isTerminator c" for c
    using assms that by (intro lastIndexOf_le) auto
  then show ?thesis by (simp add: lastBreakOf_def isTerminator_def)
qed

lemma lastBreakOf_eqI:
  assumes "p < length w" "isTerminator (w ! p)"
    and "\<forall>j. p < j \<and> j < length w \<longrightarrow> \<not> isTerminator (w ! j)"
  shows "lastBreakOf w = int p"
proof -
  have le: "lastBreakOf w \<le> int p" using assms(3) by (rule lastBreakOf_le)
  have "lastIndexOf w (w ! p) = int p"
    using assms by (intro lastIndexOf_eqI) auto
  then have "int p \<le> lastBreakOf w"
    using assms(2) by (auto simp: lastBreakOf_def isTerminator_def)
  with le show ?thesis by simp
qed

lemma lastBreakOf_bounds: "-1 \<le> lastBreakOf w \<and> lastBreakOf w < int (length w)"
  using lastIndexOf_bounds [of w "0x2E"] lastIndexOf_bounds [of w "0x3F"] lastIndexOf_bounds [of w "0x21"]
  by (auto simp: lastBreakOf_def max_def)

lemma chunkBody_unfold:
  "chunkBody text startIndex =
     (if startIndex + 1000 < int (length text) \<and> 800 < lastBreakOf (slice_str text startIndex (startIndex + 1000))
      then (startIndex + lastBreakOf (slice_str text startIndex (startIndex + 1000)) + 1,
            slice_str text startIndex (startIndex + lastBreakOf (slice_str text startIndex (startIndex + 1000)) + 1))
      else (startIndex + 1000, slice_str text startIndex (startIndex + 1000)))"
  by (simp add: chunkBody_def Let_def chunkSize_def overlap_def lastBreakOf_def)

lemma chunkBody_progress: "startIndex + 602 \<le> fst (chunkBody text startIndex) - overlap"
  by (simp add: chunkBody_unfold overlap_def)

lemma chunkBody_last_window:
  "0 \<le> startIndex \<Longrightarrow> int (length text) \<le> startIndex + 1000 \<Longrightarrow>
     chunkBody text startIndex = (startIndex + 1000, drop (nat startIndex) text)"
  by (simp add: chunkBody_unfold slice_nonneg)

lemma chunkBody_inner_window:
  assumes "0 \<le> startIndex" "startIndex + 1000 < int (length text)"
  shows "slice_str text startIndex (startIndex + 1000) = take 1000 (drop (nat startIndex) text)"
    and "length (take 1000 (drop (nat startIndex) text)) = 1000"
  using assms by (simp_all add: slice_nonneg)

lemma length_chunkBody:
  assumes "0 \<le> startIndex"
  shows "length (snd (chunkBody text startIndex)) \<le> 1000"
proof -
  let ?w = "slice_str text startIndex (startIndex + 1000)"
  have w: "length ?w \<le> 1000" using length_slice_le [of startIndex "startIndex + 1000" "text"] assms by simp
  have b: "-1 \<le> lastBreakOf ?w" "lastBreakOf ?w < int (length ?w)"
    using lastBreakOf_bounds [of ?w] by auto
  have "length (slice_str text startIndex (startIndex + lastBreakOf ?w + 1)) \<le> nat (lastBreakOf ?w + 1)"
    using length_slice_le [of startIndex "startIndex + lastBreakOf ?w + 1" "text"] assms b by simp
  also have "\<dots> \<le> 1000" using b w by linarith
  finally show ?thesis using w by (simp add: chunkBody_unfold)
qed

subsection \<open>The loop\<close>

text \<open>
  Every pass moves the window start forward by at least 602, so the distance to the end of
  the text is a measure of the loop; this is its induction rule.
\<close>

lemma chunkLoop_induct [case_names step]:
  assumes "\<And>startIndex chunks.
     (startIndex < int (length tx) \<Longrightarrow>
        P (fst (chunkBody tx startIndex) - overlap) (chunks @ [trim (snd (chunkBody tx startIndex))]))
     \<Longrightarrow> P startIndex chunks"
  shows "P startIndex chunks"
proof -
  have "\<forall>startIndex chunks. nat (int (length tx) - startIndex) = n \<longrightarrow> P startIndex chunks" for n
  proof (induction n rule: less_induct)
    case (less n)
    show ?case
    proof (intro allI impI)
      fix startIndex chunks
      assume n: "nat (int (length tx) - startIndex) = n"
      show "P startIndex chunks"
      proof (rule assms)
        assume lt: "startIndex < int (length tx)"
        have "startIndex + 602 \<le> fst (chunkBody tx startIndex) - overlap"
          by (rule chunkBody_progress)
        with lt n have "nat (int (length tx) - (fst (chunkBody tx startIndex) - overlap)) < n"
          by linarith
        then show "P (fst (chunkBody tx startIndex) - overlap)
            (chunks @ [trim (snd (chunkBody tx startIndex))])"
          using less by blast
      qed
    qed
  qed
  then show ?thesis by blast
qed

lemma chunkLoop_step:
  "startIndex < int (length text) \<Longrightarrow>
     chunkLoop text startIndex chunks =
       chunkLoop text (fst (chunkBody text startIndex) - overlap) (chunks @ [trim (snd (chunkBody text startIndex))])"
  by (subst chunkLoop.simps) (simp add: case_prod_beta)

lemma chunkLoop_stop:
  "\<not> startIndex < int (length text) \<Longrightarrow> chunkLoop text startIndex chunks = Some chunks"
  by (subst chunkLoop.simps) simp

lemma chunkLoop_total: "\<exists>r. chunkLoop text startIndex chunks = Some r"
proof (induction startIndex chunks rule: chunkLoop_induct [where tx = "text"])
  case (step startIndex chunks)
  show ?case
  proof (cases "startIndex < int (length text)")
    case True
    then show ?thesis using step by (simp add: chunkLoop_step)
  next
    case False
    then show ?thesis by (simp add: chunkLoop_stop)
  qed
qed

lemma chunkLoop_prefix: "chunkLoop text startIndex chunks = Some r \<Longrightarrow> \<exists>rest. r = chunks @ rest"
proof (induction startIndex chunks rule: chunkLoop_induct [where tx = "text"])
  case (step startIndex chunks)
  show ?case
  proof (cases "startIndex < int (length text)")
    case True
    with step.prems have "chunkLoop text (fst (chunkBody text startIndex) - overlap)
        (chunks @ [trim (snd (chunkBody text startIndex))]) = Some r"
      by (simp add: chunkLoop_step)
    with step.IH [OF True] show ?thesis by auto
  next
    case False
    with step.prems show ?thesis by (simp add: chunkLoop_stop)
  qed
qed

lemma chunkLoop_bounded:
  "0 \<le> startIndex \<Longrightarrow> \<forall>c \<in> set chunks. length c \<le> 1000 \<Longrightarrow>
     chunkLoop text startIndex chunks = Some r \<Longrightarrow> \<forall>c \<in> set r. length c \<le> 1000"
proof (induction startIndex chunks rule: chunkLoop_induct [where tx = "text"])
  case (step startIndex chunks)
  show ?case
  proof (cases "startIndex < int (length text)")
    case True
    have nn: "0 \<le> fst (chunkBody text startIndex) - overlap"
      using chunkBody_progress [of startIndex "text"] step.prems(1) by linarith
    have "length (trim (snd (chunkBody text startIndex))) \<le> 1000"
      using length_trim [of "snd (chunkBody text startIndex)"] length_chunkBody [OF step.prems(1), of "text"]
      by linarith
    with step.prems(2) have all: "\<forall>c \<in> set (chunks @ [trim (snd (chunkBody text startIndex))]). length c \<le> 1000"
      by auto
    from step.prems(3) True have "chunkLoop text (fst (chunkBody text startIndex) - overlap)
        (chunks @ [trim (snd (chunkBody text startIndex))]) = Some r"
      by (simp add: chunkLoop_step)
    with step.IH [OF True nn all] show ?thesis .
  next
    case False
    with step.prems show ?thesis by (simp add: chunkLoop_stop)
  qed
qed

section \<open>Claims about the chunker\<close>

text \<open>
  Claim C1, as amended. For a text of at most 1000 code units: the empty text gives the
  empty sequence; a non-empty text gives a sequence whose first chunk is the whole text
  trimmed, and when the text has at most 800 code units (chunk size minus overlap) that
  chunk is the only one.
\<close>

theorem chunkText_short_text:
  assumes "length text \<le> 1000"
  shows "(text = [] \<longrightarrow> chunkText text = Some []) \<and>
         (text \<noteq> [] \<longrightarrow> (\<exists>rest. chunkText text = Some (trim text # rest) \<and>
                                (length text \<le> 800 \<longrightarrow> rest = [])))"
proof (intro conjI impI)
  assume "text = []"
  then show "chunkText text = Some []" by (simp add: chunkText_def chunkLoop_stop)
next
  assume ne: "text \<noteq> []"
  have body: "chunkBody text 0 = (1000, text)"
    using assms chunkBody_last_window [of 0 "text"] by simp
  have first: "chunkText text = chunkLoop text 800 [trim text]"
    using ne by (simp add: chunkText_def chunkLoop_step body overlap_def)
  obtain r where r: "chunkLoop text 800 [trim text] = Some r"
    using chunkLoop_total by blast
  then obtain rest where rest: "r = [trim text] @ rest"
    using chunkLoop_prefix by blast
  have "rest = []" if "length text \<le> 800"
  proof -
    have "chunkLoop text 800 [trim text] = Some [trim text]"
      using that by (simp add: chunkLoop_stop)
    with r rest show ?thesis by simp
  qed
  with first r rest show "\<exists>rest. chunkText text = Some (trim text # rest) \<and>
      (length text \<le> 800 \<longrightarrow> rest = [])" by simp
qed

text \<open>Claim C1 at a concrete input.\<close>

theorem chunkText_short_text_witness:
  "length (js ''  Hi. '') \<le> 1000 \<and> chunkText (js ''  Hi. '') = Some [js ''Hi.'']"
proof -
  have t: "trim (js ''  Hi. '') = js ''Hi.''" by code_simp
  have l: "length (js ''  Hi. '') \<le> 1000" "length (js ''  Hi. '') \<le> 800" "js ''  Hi. '' \<noteq> []"
    by (simp_all add: js_def)
  show ?thesis using chunkText_short_text [OF l(1)] l t by auto
qed

text \<open>
  Claim C1 as stated fails: the empty text gives no chunk at all, and a text of 1000
  code units gives two chunks, since the next window starts at 1000 - 200 = 800, which is
  still inside the text.
\<close>

theorem chunkText_short_text_counterexample:
  "length ([] :: jsstring) \<le> 1000 \<and> chunkText [] = Some [] \<and>
   length (replicate 1000 (0x61 :: jschar)) \<le> 1000 \<and>
   chunkText (replicate 1000 0x61) = Some [replicate 1000 0x61, replicate 200 0x61]"
proof -
  let ?t = "replicate 1000 (0x61 :: jschar)"
  have b0: "chunkBody ?t 0 = (1000, ?t)"
    using chunkBody_last_window [of 0 ?t] by simp
  have b1: "chunkBody ?t 800 = (1800, replicate 200 0x61)"
    using chunkBody_last_window [of 800 ?t] by simp
  have t0: "trim ?t = ?t" by (rule trim_id) (simp_all add: not_ws_a)
  have t1: "trim (replicate 200 (0x61 :: jschar)) = replicate 200 0x61"
    by (rule trim_id) (simp_all add: not_ws_a)
  have "chunkText ?t = chunkLoop ?t 800 [?t]"
    by (simp add: chunkText_def chunkLoop_step b0 t0 overlap_def)
  also have "\<dots> = chunkLoop ?t 1600 [?t, replicate 200 0x61]"
    by (simp add: chunkLoop_step b1 t1 overlap_def)
  also have "\<dots> = Some [?t, replicate 200 0x61]"
    by (simp add: chunkLoop_stop)
  finally show ?thesis by (simp add: chunkText_def chunkLoop_stop)
qed

text \<open>
  Claim C3, as amended. Take a pass of the loop whose window of 1000 code units ends before
  the end of the text. If the last sentence terminator of the window is at an index \<open>p\<close>
  of the window with \<open>800 < p\<close> (the last 199 code units), the chunk is the window cut just
  after that terminator and the next pass starts at \<open>startIndex + p + 1 - 200\<close>. If there
  is no terminator at an index above 800, the chunk is the whole window and the next pass
  starts at \<open>startIndex + 1000 - 200\<close>.
\<close>

theorem chunk_window_sentence_boundary:
  assumes "0 \<le> startIndex" and "startIndex + 1000 < int (length text)"
  shows "(let window = take 1000 (drop (nat startIndex) text) in
     (\<forall>p. 800 < p \<and> p < 1000 \<and> isTerminator (window ! p) \<and>
          (\<forall>j. p < j \<and> j < 1000 \<longrightarrow> \<not> isTerminator (window ! j)) \<longrightarrow>
        chunkBody text startIndex = (startIndex + int p + 1, take (p + 1) window) \<and>
        chunkLoop text startIndex chunks =
          chunkLoop text (startIndex + int p + 1 - 200) (chunks @ [trim (take (p + 1) window)])) \<and>
     ((\<forall>j. 800 < j \<and> j < 1000 \<longrightarrow> \<not> isTerminator (window ! j)) \<longrightarrow>
        chunkBody text startIndex = (startIndex + 1000, window) \<and>
        chunkLoop text startIndex chunks =
          chunkLoop text (startIndex + 1000 - 200) (chunks @ [trim window])))"
proof -
  let ?w = "take 1000 (drop (nat startIndex) text)"
  have w: "slice_str text startIndex (startIndex + 1000) = ?w" and len: "length ?w = 1000"
    using chunkBody_inner_window [OF assms] by auto
  have lt: "startIndex < int (length text)" using assms by linarith
  have cut: "chunkBody text startIndex = (startIndex + int p + 1, take (p + 1) ?w) \<and>
        chunkLoop text startIndex chunks =
          chunkLoop text (startIndex + int p + 1 - 200) (chunks @ [trim (take (p + 1) ?w)])"
    if p: "800 < p" "p < 1000" "isTerminator (?w ! p)"
      and after: "\<forall>j. p < j \<and> j < 1000 \<longrightarrow> \<not> isTerminator (?w ! j)" for p
  proof -
    have lb: "lastBreakOf ?w = int p"
      using p after len by (intro lastBreakOf_eqI) auto
    have "slice_str text startIndex (startIndex + int p + 1) = take (p + 1) (drop (nat startIndex) text)"
      using assms(1) by (simp add: slice_nonneg nat_add_distrib)
    also have "\<dots> = take (p + 1) ?w" using p(2) by (simp add: min_def)
    finally have sl: "slice_str text startIndex (startIndex + int p + 1) = take (p + 1) ?w" .
    have body: "chunkBody text startIndex = (startIndex + int p + 1, take (p + 1) ?w)"
      using assms(2) p(1) by (simp add: chunkBody_unfold w lb sl)
    show ?thesis using lt by (simp add: chunkLoop_step body overlap_def)
  qed
  have raw: "chunkBody text startIndex = (startIndex + 1000, ?w) \<and>
        chunkLoop text startIndex chunks =
          chunkLoop text (startIndex + 1000 - 200) (chunks @ [trim ?w])"
    if none: "\<forall>j. 800 < j \<and> j < 1000 \<longrightarrow> \<not> isTerminator (?w ! j)"
  proof -
    have "lastBreakOf ?w \<le> int 800"
      using none len by (intro lastBreakOf_le) auto
    then have body: "chunkBody text startIndex = (startIndex + 1000, ?w)"
      by (simp add: chunkBody_unfold w)
    show ?thesis using lt by (simp add: chunkLoop_step body overlap_def)
  qed
  show ?thesis unfolding Let_def using cut raw by blast
qed

text \<open>Claim C3 at a concrete input.\<close>

theorem chunk_window_sentence_boundary_witness:
  "chunkLoop (replicate 900 0x61 @ 0x2E # replicate 300 0x61) 0 [] =
     chunkLoop (replicate 900 0x61 @ 0x2E # replicate 300 0x61) 701 [replicate 900 0x61 @ [0x2E]] \<and>
   chunkLoop (replicate 1201 0x61) 0 [] = chunkLoop (replicate 1201 0x61) 800 [replicate 1000 0x61]"
proof -
  let ?t = "replicate 900 (0x61 :: jschar) @ 0x2E # replicate 300 0x61"
  let ?w = "replicate 900 (0x61 :: jschar) @ 0x2E # replicate 99 0x61"
  have pre: "(0::int) \<le> 0" "(0::int) + 1000 < int (length ?t)" by simp_all
  have w: "take 1000 (drop (nat 0) ?t) = ?w" by simp
  have at: "isTerminator (?w ! 900)" by (simp add: nth_append isTerminator_chars)
  have after: "\<forall>j. 900 < j \<and> j < 1000 \<longrightarrow> \<not> isTerminator (?w ! j)"
    by (auto simp: nth_append nth_Cons isTerminator_chars split: nat.splits)
  have "chunkBody ?t 0 = (0 + int 900 + 1, take (900 + 1) ?w) \<and>
      chunkLoop ?t 0 [] = chunkLoop ?t (0 + int 900 + 1 - 200) ([] @ [trim (take (900 + 1) ?w)])"
  proof -
    have prem: "800 < (900::nat) \<and> (900::nat) < 1000 \<and> isTerminator (?w ! 900) \<and>
        (\<forall>j. 900 < j \<and> j < 1000 \<longrightarrow> \<not> isTerminator (?w ! j))"
      using at after by simp
    show ?thesis
      by (rule chunk_window_sentence_boundary [OF pre, of "[]", unfolded Let_def w,
            THEN conjunct1, THEN spec [where x = "900::nat"], THEN mp, OF prem])
  qed
  moreover have "take (900 + 1) ?w = replicate 900 0x61 @ [0x2E]" by simp
  moreover have "trim (replicate 900 0x61 @ [0x2E]) = replicate 900 0x61 @ [0x2E]"
    by (rule trim_id) (simp_all add: not_ws_a hd_append)
  ultimately have 1: "chunkLoop ?t 0 [] = chunkLoop ?t 701 [replicate 900 0x61 @ [0x2E]]"
    by simp
  let ?u = "replicate 1201 (0x61 :: jschar)"
  have pre': "(0::int) \<le> 0" "(0::int) + 1000 < int (length ?u)" by simp_all
  have wu: "take 1000 (drop (nat 0) ?u) = replicate 1000 0x61" by simp
  have none: "\<forall>j. 800 < j \<and> j < 1000 \<longrightarrow> \<not> isTerminator (replicate 1000 (0x61 :: jschar) ! j)"
    by (simp add: isTerminator_chars)
  have "chunkBody ?u 0 = (0 + 1000, replicate 1000 0x61) \<and>
      chunkLoop ?u 0 [] = chunkLoop ?u (0 + 1000 - 200) ([] @ [trim (replicate 1000 0x61)])"
    by (rule chunk_window_sentence_boundary [OF pre', of "[]", unfolded Let_def wu,
          THEN conjunct2, THEN mp, OF none])
  moreover have "trim (replicate 1000 (0x61 :: jschar)) = replicate 1000 0x61"
    by (rule trim_id) (simp_all add: not_ws_a)
  ultimately have 2: "chunkLoop ?u 0 [] = chunkLoop ?u 800 [replicate 1000 0x61]"
    by simp
  from 1 2 show ?thesis by simp
qed

text \<open>
  Claim C3 as stated fails at the edge of the last 200 code units: with the only
  terminator at index 800 of the first window, which is among the last 200 (indices 800 to
  999), the window is not cut after it; the first chunk has all 1000 code units and the
  second window starts at 800.
\<close>

theorem chunk_window_sentence_boundary_counterexample:
  "(replicate 800 0x61 @ 0x2E # replicate 400 0x61) ! 800 = (0x2E :: jschar) \<and>
   chunkText (replicate 800 0x61 @ 0x2E # replicate 400 0x61) =
     Some [replicate 800 0x61 @ 0x2E # replicate 199 0x61, 0x2E # replicate 400 0x61]"
proof -
  let ?t = "replicate 800 (0x61 :: jschar) @ 0x2E # replicate 400 0x61"
  let ?w = "replicate 800 (0x61 :: jschar) @ 0x2E # replicate 199 0x61"
  have w: "slice_str ?t 0 1000 = ?w" by (simp add: slice_nonneg)
  have "isTerminator (?w ! 800)" by (simp add: nth_append isTerminator_chars)
  moreover have "\<forall>j. 800 < j \<and> j < length ?w \<longrightarrow> \<not> isTerminator (?w ! j)"
    by (auto simp: nth_append nth_Cons isTerminator_chars split: nat.splits)
  ultimately have lb: "lastBreakOf ?w = int 800"
    by (intro lastBreakOf_eqI) auto
  have b0: "chunkBody ?t 0 = (1000, ?w)"
    using lb by (simp add: chunkBody_unfold w)
  have b1: "chunkBody ?t 800 = (1800, 0x2E # replicate 400 0x61)"
    using chunkBody_last_window [of 800 ?t] by simp
  have t0: "trim ?w = ?w" by (rule trim_id) (simp_all add: not_ws_a hd_append)
  have t1: "trim (0x2E # replicate 400 (0x61 :: jschar)) = 0x2E # replicate 400 0x61"
    by (rule trim_id) (simp_all add: not_ws_a)
  have "chunkText ?t = chunkLoop ?t 800 [?w]"
    by (simp add: chunkText_def chunkLoop_step b0 t0 overlap_def)
  also have "\<dots> = chunkLoop ?t 1600 [?w, 0x2E # replicate 400 0x61]"
    by (simp add: chunkLoop_step b1 t1 overlap_def)
  also have "\<dots> = Some [?w, 0x2E # replicate 400 0x61]"
    by (simp add: chunkLoop_stop)
  finally show ?thesis by (simp add: nth_append)
qed

text \<open>
  Claim C8. \<open>chunkText\<close> returns for every text; every pass of the loop body moves the
  window start strictly forward; and the loop returns its chunks as soon as the window
  start reaches or exceeds the length of the text.
\<close>

theorem chunkText_terminates:
  "(\<exists>chunks. chunkText text = Some chunks) \<and>
   (\<forall>startIndex. startIndex < fst (chunkBody text startIndex) - overlap) \<and>
   (\<forall>startIndex chunks. int (length text) \<le> startIndex \<longrightarrow>
        chunkLoop text startIndex chunks = Some chunks)"
proof (intro conjI allI impI)
  show "\<exists>chunks. chunkText text = Some chunks"
    unfolding chunkText_def by (rule chunkLoop_total)
next
  fix startIndex
  show "startIndex < fst (chunkBody text startIndex) - overlap"
    using chunkBody_progress [of startIndex "text"] by linarith
next
  fix startIndex chunks
  assume "int (length text) \<le> startIndex"
  then show "chunkLoop text startIndex chunks = Some chunks"
    by (simp add: chunkLoop_stop)
qed

text \<open>Claim C8 at a concrete input.\<close>

theorem chunkText_terminates_witness:
  "(\<exists>chunks. chunkText (js ''abc'') = Some chunks) \<and>
   int (length (js ''abc'')) \<le> 3 \<and> chunkLoop (js ''abc'') 3 [js ''abc''] = Some [js ''abc'']"
  using chunkText_terminates [of "js ''abc''"] by (simp add: js_def)

text \<open>
  Claim C10. For every text, \<open>chunkText\<close> returns a sequence in which every chunk has at
  most 1000 code units.
\<close>

theorem chunkText_chunk_length:
  "\<exists>chunks. chunkText text = Some chunks \<and> (\<forall>c \<in> set chunks. length c \<le> 1000)"
proof -
  obtain r where r: "chunkLoop text 0 [] = Some r"
    using chunkLoop_total by blast
  have "\<forall>c \<in> set r. length c \<le> 1000"
    using chunkLoop_bounded [OF _ _ r] by simp
  with r show ?thesis by (simp add: chunkText_def)
qed

text \<open>Claim C10 at a concrete input.\<close>

theorem chunkText_chunk_length_witness:
  "js ''Hi.'' \<in> set (the (chunkText (js ''  Hi. ''))) \<and> length (js ''Hi.'') \<le> 1000"
proof -
  have c: "chunkText (js ''  Hi. '') = Some [js ''Hi.'']" by code_simp
  show ?thesis using chunkText_chunk_length [of "js ''  Hi. ''"] c by auto
qed

section \<open>Properties of the services and handlers\<close>

lemma after_calls_Nil: "after_calls w [] = w"
  by (simp add: after_calls_def embedding_calls_def)

lemma emit_embedding_call: "emit (EmbeddingsCreate c embedding_model) w = after_calls w [c]"
  by (simp add: after_calls_def embedding_calls_def emit_def)

lemma after_calls_after_calls: "after_calls (after_calls w xs) ys = after_calls w (xs @ ys)"
  by (simp add: after_calls_def embedding_calls_def)

lemma after_calls_tables:
  "db_documents (after_calls w xs) = db_documents w" "db_chunks (after_calls w xs) = db_chunks w"
  "trace (after_calls w xs) = trace w @ embedding_calls xs"
  by (simp_all add: after_calls_def)

lemma getEmbeddings_loop_spec:
  "case getEmbeddings_loop env chunks acc w of
     (Inr embs, w') \<Rightarrow>
        w' = after_calls w chunks \<and> length embs = length acc + length chunks \<and>
        take (length acc) embs = acc \<and>
        (\<forall>i < length chunks.
           embeddings_create env (after_calls w (take i chunks)) (chunks ! i) = Inr (embs ! (length acc + i)))
   | (Inl m, w') \<Rightarrow>
        (\<exists>k < length chunks. w' = after_calls w (take (Suc k) chunks) \<and>
           embeddings_create env (after_calls w (take k chunks)) (chunks ! k) = Inl m)"
proof (induction chunks arbitrary: acc w)
  case Nil
  show ?case by (simp add: after_calls_Nil)
next
  case (Cons c cs)
  show ?case
  proof (cases "embeddings_create env w c")
    case (Inl m)
    then have "getEmbeddings_loop env (c # cs) acc w = (Inl m, after_calls w [c])"
      by (simp add: emit_embedding_call)
    moreover have "embeddings_create env (after_calls w (take 0 (c # cs))) ((c # cs) ! 0) = Inl m"
      using Inl by (simp add: after_calls_Nil)
    ultimately show ?thesis by (auto intro!: exI [of _ 0])
  next
    case (Inr v)
    let ?w1 = "after_calls w [c]"
    have step: "getEmbeddings_loop env (c # cs) acc w = getEmbeddings_loop env cs (acc @ [v]) ?w1"
      using Inr by (simp add: emit_embedding_call)
    obtain r w' where rw: "getEmbeddings_loop env cs (acc @ [v]) ?w1 = (r, w')"
      by (cases "getEmbeddings_loop env cs (acc @ [v]) ?w1")
    show ?thesis
    proof (cases r)
      case (Inl m)
      with Cons.IH [where acc = "acc @ [v]" and w = ?w1] rw
      obtain k where k: "k < length cs" "w' = after_calls ?w1 (take (Suc k) cs)"
        "embeddings_create env (after_calls ?w1 (take k cs)) (cs ! k) = Inl m" by auto
      have "Suc k < length (c # cs)" using k(1) by simp
      moreover have "w' = after_calls w (take (Suc (Suc k)) (c # cs))"
        using k(2) by (simp add: after_calls_after_calls)
      moreover have "embeddings_create env (after_calls w (take (Suc k) (c # cs))) ((c # cs) ! Suc k) = Inl m"
        using k(3) by (simp add: after_calls_after_calls)
      ultimately show ?thesis using step rw Inl by auto
    next
      case (Inr embs)
      with Cons.IH [where acc = "acc @ [v]" and w = ?w1] rw
      have ih: "w' = after_calls ?w1 cs" "length embs = length (acc @ [v]) + length cs"
        "take (length (acc @ [v])) embs = acc @ [v]"
        "\<forall>i < length cs. embeddings_create env (after_calls ?w1 (take i cs)) (cs ! i) =
            Inr (embs ! (length (acc @ [v]) + i))" by auto
      have w': "w' = after_calls w (c # cs)" using ih(1) by (simp add: after_calls_after_calls)
      have len: "length embs = length acc + length (c # cs)" using ih(2) by simp
      have "take (length acc) (take (length (acc @ [v])) embs) = take (length acc) (acc @ [v])"
        using ih(3) by simp
      then have tk: "take (length acc) embs = acc" by (simp add: min_def)
      have "embs ! length acc = (take (length (acc @ [v])) embs) ! length acc" by simp
      also have "\<dots> = v" by (simp only: ih(3)) simp
      finally have at: "embs ! length acc = v" .
      have all: "embeddings_create env (after_calls w (take i (c # cs))) ((c # cs) ! i) =
          Inr (embs ! (length acc + i))" if "i < length (c # cs)" for i
      proof (cases i)
        case 0
        then show ?thesis using \<open>embeddings_create env w c = Inr v\<close> at by (simp add: after_calls_Nil)
      next
        case (Suc j)
        then have "j < length cs" using that by simp
        with ih(4) have "embeddings_create env (after_calls ?w1 (take j cs)) (cs ! j) =
            Inr (embs ! (length (acc @ [v]) + j))" by blast
        then show ?thesis using Suc by (simp add: after_calls_after_calls)
      qed
      show ?thesis using step rw Inr w' len tk all by auto
    qed
  qed
qed

lemma parseFile_tables:
  "parseFile env file w0 = (r, w) \<Longrightarrow> db_documents w = db_documents w0 \<and> db_chunks w = db_chunks w0"
  by (auto simp: parseFile_def Let_def emit_def split: if_splits sum.splits)

lemma upload_catch_tables:
  "upload_catch env file m w = (\<lparr>http_status = 500, http_body = ErrorBody m\<rparr>,
     w\<lparr>trace := trace w @ Unlink (file_path file) #
          (case fs_unlink env w (file_path file) of None \<Rightarrow> [] | Some e \<Rightarrow> [ConsoleError [e]])\<rparr>)"
  by (simp add: upload_catch_def Let_def emit_def split: option.splits)

lemma upload_catch_unlinks:
  "Unlink (file_path file) \<in> set (trace (snd (upload_catch env file m w)))"
  by (simp add: upload_catch_def Let_def emit_def split: option.splits)

lemma chunkText_not_None: "chunkText text \<noteq> None"
  using chunkLoop_total [of "text" 0 "[]"] by (auto simp: chunkText_def)

text \<open>The runs of the concrete environments start alike.\<close>

lemma hello_chunks: "chunkText (js ''Hello.'') = Some [js ''Hello.'']"
  by code_simp

lemma parse_hello:
  "ext_lower env (file_originalname hello_file) = js ''.txt'' \<Longrightarrow>
   fs_readFile_utf8 env world0 (file_path hello_file) = Inr (js ''Hello.'') \<Longrightarrow>
   parseFile env hello_file world0 = (Inr (js ''Hello.''), emit (ReadFileUtf8 (file_path hello_file)) world0)"
  by (simp add: parseFile_def Let_def js_def)

text \<open>
  Given a file, the upload handler always responds, and by then it has called \<open>unlink\<close> on
  the uploaded file, whatever stage failed.
\<close>

lemma upload_attempts_unlink:
  "\<exists>r w'. upload env (Some file) w = Some (r, w') \<and> Unlink (file_path file) \<in> set (trace w')"
proof -
  obtain r1 w1 where p: "parseFile env file w = (r1, w1)" by (cases "parseFile env file w")
  show ?thesis
  proof (cases r1)
    case (Inl m)
    then have "upload env (Some file) w = Some (upload_catch env file m w1)"
      using p by (simp add: upload_def)
    then show ?thesis using upload_catch_unlinks [of "file" env m w1]
      by (cases "upload_catch env file m w1") auto
  next
    case (Inr tx)
    obtain chunks where c: "chunkText tx = Some chunks"
      using chunkText_not_None [of tx] by auto
    obtain r2 w2 where g: "getEmbeddings env chunks w1 = (r2, w2)"
      by (cases "getEmbeddings env chunks w1")
    show ?thesis
    proof (cases r2)
      case (Inl m)
      then have "upload env (Some file) w = Some (upload_catch env file m w2)"
        using p Inr c g by (simp add: upload_def)
      then show ?thesis using upload_catch_unlinks [of "file" env m w2]
        by (cases "upload_catch env file m w2") auto
    next
      case embs: (Inr embeddings)
      obtain r3 w3 where s: "store env file chunks embeddings w2 = (r3, w3)"
        by (cases "store env file chunks embeddings w2")
      show ?thesis
      proof (cases r3)
        case (Inl m)
        then have "upload env (Some file) w = Some (upload_catch env file m w3)"
          using p Inr c g embs s by (simp add: upload_def)
        then show ?thesis using upload_catch_unlinks [of "file" env m w3]
          by (cases "upload_catch env file m w3") auto
      next
        case doc: (Inr document)
        show ?thesis
        proof (cases "fs_unlink env w3 (file_path file)")
          case None
          then show ?thesis using p Inr c g embs s doc by (simp add: upload_def emit_def)
        next
          case (Some m)
          then have "upload env (Some file) w =
              Some (upload_catch env file m (emit (Unlink (file_path file)) w3))"
            using p Inr c g embs s doc by (simp add: upload_def)
          then show ?thesis
            using upload_catch_unlinks [of "file" env m "emit (Unlink (file_path file)) w3"]
            by (cases "upload_catch env file m (emit (Unlink (file_path file)) w3)") auto
        qed
      qed
    qed
  qed
qed

section \<open>Claims about the services and handlers\<close>

text \<open>
  Claim C2, as amended. The store is two inserts, one after the other, with no transaction
  and no compensating delete. If the insert of the document answers with an error, the
  store fails with that error, the insert of the chunks is not attempted and neither table
  changes. If it succeeds, the document row is recorded, and the insert of the chunks is
  attempted with one row for each chunk, in order, holding the document's identifier, the
  chunk's index, its content and its embedding. If that insert succeeds, all those rows are
  recorded and the store answers with the document. If it fails, the store fails with that
  error, no chunk row is recorded, the document row stays, and no further call is made.
\<close>

theorem store_two_inserts:
  "(let new = \<lparr>new_filename = file_filename file,
               new_original_name = file_originalname file,
               new_upload_date = date_now env w\<rparr>
    in (\<forall>m. insert_document env w new = Inl m \<longrightarrow>
          store env file chunks embeddings w =
            (Inl (js ''Error inserting document: '' @ m),
             w\<lparr>trace := trace w @ [InsertDocument new]\<rparr>)) \<and>
       (\<forall>document. insert_document env w new = Inr document \<longrightarrow>
          (let rows = chunksToInsert document chunks embeddings;
               w2 = w\<lparr>trace := trace w @ [InsertDocument new],
                      db_documents := db_documents w @ [document]\<rparr>
           in length rows = length chunks \<and>
              (\<forall>i < length chunks.
                 row_document_id (rows ! i) = doc_id document \<and>
                 row_chunk_index (rows ! i) = i \<and>
                 row_content (rows ! i) = chunks ! i \<and>
                 (i < length embeddings \<longrightarrow> row_embedding (rows ! i) = Some (embeddings ! i))) \<and>
              (\<forall>m. insert_chunks env w2 rows = Some m \<longrightarrow>
                 store env file chunks embeddings w =
                   (Inl (js ''Error inserting chunks: '' @ m),
                    w2\<lparr>trace := trace w2 @ [InsertChunks rows]\<rparr>)) \<and>
              (insert_chunks env w2 rows = None \<longrightarrow>
                 store env file chunks embeddings w =
                   (Inr document,
                    w2\<lparr>trace := trace w2 @ [InsertChunks rows],
                       db_chunks := db_chunks w2 @ rows\<rparr>)))))"
proof -
  have rows: "length (chunksToInsert document chunks embeddings) = length chunks \<and>
      (\<forall>i < length chunks.
         row_document_id (chunksToInsert document chunks embeddings ! i) = doc_id document \<and>
         row_chunk_index (chunksToInsert document chunks embeddings ! i) = i \<and>
         row_content (chunksToInsert document chunks embeddings ! i) = chunks ! i \<and>
         (i < length embeddings \<longrightarrow>
            row_embedding (chunksToInsert document chunks embeddings ! i) = Some (embeddings ! i)))"
    for document
    by (simp add: chunksToInsert_def)
  show ?thesis
    unfolding Let_def
  proof (intro conjI allI impI)
    fix m
    assume "insert_document env w \<lparr>new_filename = file_filename file,
        new_original_name = file_originalname file, new_upload_date = date_now env w\<rparr> = Inl m"
    then show "store env file chunks embeddings w =
        (Inl (js ''Error inserting document: '' @ m),
         w\<lparr>trace := trace w @ [InsertDocument \<lparr>new_filename = file_filename file,
            new_original_name = file_originalname file, new_upload_date = date_now env w\<rparr>]\<rparr>)"
      by (simp add: store_def Let_def emit_def)
  qed (use rows in \<open>auto simp: store_def Let_def emit_def\<close>)
qed

text \<open>
  Claim C2 as amended, at the environment whose insert into \<open>chunks\<close> fails and at the one
  where both inserts succeed.
\<close>

theorem store_two_inserts_witness:
  "store env_chunks_fail hello_file [js ''Hello.''] [[1 / 2]] world0 =
     (Inl (js ''Error inserting chunks: '' @ js ''insert failed''),
      \<lparr>trace = [InsertDocument \<lparr>new_filename = js ''file-1.txt'',
                                new_original_name = js ''hello.txt'',
                                new_upload_date = js ''2024-03-05T00:00:00.000Z''\<rparr>,
                InsertChunks [\<lparr>row_document_id = js ''d1'', row_chunk_index = 0,
                               row_content = js ''Hello.'', row_embedding = Some [1 / 2]\<rparr>]],
         db_documents = [\<lparr>doc_id = js ''d1'', doc_filename = js ''file-1.txt'',
                          doc_original_name = js ''hello.txt'',
                          doc_upload_date = js ''2024-03-05T00:00:00.000Z''\<rparr>],
         db_chunks = []\<rparr>) \<and>
   store env_ok hello_file [js ''Hello.''] [[1 / 2]] world0 =
     (Inr \<lparr>doc_id = js ''d1'', doc_filename = js ''file-1.txt'',
            doc_original_name = js ''hello.txt'',
            doc_upload_date = js ''2024-03-05T00:00:00.000Z''\<rparr>,
      \<lparr>trace = [InsertDocument \<lparr>new_filename = js ''file-1.txt'',
                                new_original_name = js ''hello.txt'',
                                new_upload_date = js ''2024-03-05T00:00:00.000Z''\<rparr>,
                InsertChunks [\<lparr>row_document_id = js ''d1'', row_chunk_index = 0,
                               row_content = js ''Hello.'', row_embedding = Some [1 / 2]\<rparr>]],
         db_documents = [\<lparr>doc_id = js ''d1'', doc_filename = js ''file-1.txt'',
                          doc_original_name = js ''hello.txt'',
                          doc_upload_date = js ''2024-03-05T00:00:00.000Z''\<rparr>],
         db_chunks = [\<lparr>row_document_id = js ''d1'', row_chunk_index = 0,
                        row_content = js ''Hello.'', row_embedding = Some [1 / 2]\<rparr>]\<rparr>)"
proof
  let ?doc = "\<lparr>doc_id = js ''d1'', doc_filename = file_filename hello_file,
      doc_original_name = file_originalname hello_file,
      doc_upload_date = date_now env_chunks_fail world0\<rparr>"
  have d: "insert_document env_chunks_fail world0
      \<lparr>new_filename = file_filename hello_file,
         new_original_name = file_originalname hello_file,
         new_upload_date = date_now env_chunks_fail world0\<rparr> = Inr ?doc"
    by (simp add: env_chunks_fail_def env_ok_def)
  have c: "insert_chunks env_chunks_fail ww rr = Some (js ''insert failed'')" for ww rr
    by (simp add: env_chunks_fail_def)
  have "store env_chunks_fail hello_file [js ''Hello.''] [[1 / 2]] world0 =
      (Inl (js ''Error inserting chunks: '' @ js ''insert failed''),
       world0\<lparr>trace := trace world0 @ [InsertDocument \<lparr>new_filename = file_filename hello_file,
                  new_original_name = file_originalname hello_file,
                  new_upload_date = date_now env_chunks_fail world0\<rparr>],
               db_documents := db_documents world0 @ [?doc]\<rparr>
         \<lparr>trace := trace (world0\<lparr>trace := trace world0 @ [InsertDocument \<lparr>new_filename = file_filename hello_file,
                  new_original_name = file_originalname hello_file,
                  new_upload_date = date_now env_chunks_fail world0\<rparr>],
               db_documents := db_documents world0 @ [?doc]\<rparr>) @
             [InsertChunks (chunksToInsert ?doc [js ''Hello.''] [[1 / 2]])]\<rparr>)"
    by (rule store_two_inserts [of hello_file env_chunks_fail world0 "[js ''Hello.'']" "[[1 / 2]]",
          unfolded Let_def, THEN conjunct2, THEN spec, THEN mp, OF d,
          THEN conjunct2, THEN conjunct2, THEN conjunct1, THEN spec, THEN mp, OF c])
  then show "store env_chunks_fail hello_file [js ''Hello.''] [[1 / 2]] world0 =
     (Inl (js ''Error inserting chunks: '' @ js ''insert failed''),
      \<lparr>trace = [InsertDocument \<lparr>new_filename = js ''file-1.txt'',
                                new_original_name = js ''hello.txt'',
                                new_upload_date = js ''2024-03-05T00:00:00.000Z''\<rparr>,
                InsertChunks [\<lparr>row_document_id = js ''d1'', row_chunk_index = 0,
                               row_content = js ''Hello.'', row_embedding = Some [1 / 2]\<rparr>]],
         db_documents = [\<lparr>doc_id = js ''d1'', doc_filename = js ''file-1.txt'',
                          doc_original_name = js ''hello.txt'',
                          doc_upload_date = js ''2024-03-05T00:00:00.000Z''\<rparr>],
         db_chunks = []\<rparr>)"
    by (simp add: chunksToInsert_def world0_def hello_file_def env_chunks_fail_def env_ok_def)
next
  let ?doc = "\<lparr>doc_id = js ''d1'', doc_filename = file_filename hello_file,
      doc_original_name = file_originalname hello_file,
      doc_upload_date = date_now env_ok world0\<rparr>"
  have d: "insert_document env_ok world0
      \<lparr>new_filename = file_filename hello_file,
         new_original_name = file_originalname hello_file,
         new_upload_date = date_now env_ok world0\<rparr> = Inr ?doc"
    by (simp add: env_ok_def)
  have c: "insert_chunks env_ok ww rr = None" for ww rr
    by (simp add: env_ok_def)
  have "store env_ok hello_file [js ''Hello.''] [[1 / 2]] world0 =
      (Inr ?doc,
       world0\<lparr>trace := trace world0 @ [InsertDocument \<lparr>new_filename = file_filename hello_file,
                  new_original_name = file_originalname hello_file,
                  new_upload_date = date_now env_ok world0\<rparr>],
               db_documents := db_documents world0 @ [?doc]\<rparr>
         \<lparr>trace := trace (world0\<lparr>trace := trace world0 @ [InsertDocument \<lparr>new_filename = file_filename hello_file,
                  new_original_name = file_originalname hello_file,
                  new_upload_date = date_now env_ok world0\<rparr>],
               db_documents := db_documents world0 @ [?doc]\<rparr>) @
             [InsertChunks (chunksToInsert ?doc [js ''Hello.''] [[1 / 2]])],
           db_chunks := db_chunks (world0\<lparr>trace := trace world0 @ [InsertDocument \<lparr>new_filename = file_filename hello_file,
                  new_original_name = file_originalname hello_file,
                  new_upload_date = date_now env_ok world0\<rparr>],
               db_documents := db_documents world0 @ [?doc]\<rparr>) @
             chunksToInsert ?doc [js ''Hello.''] [[1 / 2]]\<rparr>)"
    by (rule store_two_inserts [of hello_file env_ok world0 "[js ''Hello.'']" "[[1 / 2]]",
          unfolded Let_def, THEN conjunct2, THEN spec, THEN mp, OF d,
          THEN conjunct2, THEN conjunct2, THEN conjunct2, THEN mp, OF c])
  then show "store env_ok hello_file [js ''Hello.''] [[1 / 2]] world0 =
     (Inr \<lparr>doc_id = js ''d1'', doc_filename = js ''file-1.txt'',
            doc_original_name = js ''hello.txt'',
            doc_upload_date = js ''2024-03-05T00:00:00.000Z''\<rparr>,
      \<lparr>trace = [InsertDocument \<lparr>new_filename = js ''file-1.txt'',
                                new_original_name = js ''hello.txt'',
                                new_upload_date = js ''2024-03-05T00:00:00.000Z''\<rparr>,
                InsertChunks [\<lparr>row_document_id = js ''d1'', row_chunk_index = 0,
                               row_content = js ''Hello.'', row_embedding = Some [1 / 2]\<rparr>]],
         db_documents = [\<lparr>doc_id = js ''d1'', doc_filename = js ''file-1.txt'',
                          doc_original_name = js ''hello.txt'',
                          doc_upload_date = js ''2024-03-05T00:00:00.000Z''\<rparr>],
         db_chunks = [\<lparr>row_document_id = js ''d1'', row_chunk_index = 0,
                        row_content = js ''Hello.'', row_embedding = Some [1 / 2]\<rparr>]\<rparr>)"
    by (simp add: chunksToInsert_def world0_def hello_file_def env_ok_def)
qed

text \<open>
  Claim C2 as stated fails: when the insert of the chunks answers with an error after the
  insert of the document succeeded, the request ends with status 500 and the tables hold
  the document and none of its chunks.
\<close>

theorem store_two_inserts_counterexample:
  "upload env_chunks_fail (Some hello_file) world0 =
     Some (\<lparr>http_status = 500,
             http_body = ErrorBody (js ''Error inserting chunks: '' @ js ''insert failed'')\<rparr>,
           \<lparr>trace = [ReadFileUtf8 (js ''uploads/file-1.txt''),
                     EmbeddingsCreate (js ''Hello.'') embedding_model,
                     InsertDocument \<lparr>new_filename = js ''file-1.txt'',
                                     new_original_name = js ''hello.txt'',
                                     new_upload_date = js ''2024-03-05T00:00:00.000Z''\<rparr>,
                     InsertChunks [\<lparr>row_document_id = js ''d1'', row_chunk_index = 0,
                                    row_content = js ''Hello.'', row_embedding = Some [1 / 2]\<rparr>],
                     Unlink (js ''uploads/file-1.txt'')],
            db_documents = [\<lparr>doc_id = js ''d1'', doc_filename = js ''file-1.txt'',
                             doc_original_name = js ''hello.txt'',
                             doc_upload_date = js ''2024-03-05T00:00:00.000Z''\<rparr>],
            db_chunks = []\<rparr>)"
  by code_simp

text \<open>
  Claim C4 fails on the path where every stage succeeds: the \<open>unlink\<close> after the inserts
  is inside the \<open>try\<close> block, so its failure is thrown, and the response is status 500 with
  the message of \<open>unlink\<close> as its error, although the document and its chunk are stored.
  The \<open>catch\<close> block calls \<open>unlink\<close> a second time, and only that second failure is
  logged.
\<close>

theorem upload_unlink_failure_surfaces:
  "upload env_unlink_fails (Some hello_file) world0 =
     Some (\<lparr>http_status = 500, http_body = ErrorBody (js ''EPERM'')\<rparr>,
           \<lparr>trace = [ReadFileUtf8 (js ''uploads/file-1.txt''),
                     EmbeddingsCreate (js ''Hello.'') embedding_model,
                     InsertDocument \<lparr>new_filename = js ''file-1.txt'',
                                     new_original_name = js ''hello.txt'',
                                     new_upload_date = js ''2024-03-05T00:00:00.000Z''\<rparr>,
                     InsertChunks [\<lparr>row_document_id = js ''d1'', row_chunk_index = 0,
                                    row_content = js ''Hello.'', row_embedding = Some [1 / 2]\<rparr>],
                     Unlink (js ''uploads/file-1.txt''),
                     Unlink (js ''uploads/file-1.txt''),
                     ConsoleError [js ''EPERM'']],
            db_documents = [\<lparr>doc_id = js ''d1'', doc_filename = js ''file-1.txt'',
                             doc_original_name = js ''hello.txt'',
                             doc_upload_date = js ''2024-03-05T00:00:00.000Z''\<rparr>],
            db_chunks = [\<lparr>row_document_id = js ''d1'', row_chunk_index = 0,
                           row_content = js ''Hello.'', row_embedding = Some [1 / 2]\<rparr>]\<rparr>)"
  by code_simp

text \<open>
  Claim C5. The Slack handler answers every request with status 200. When the embedding of
  the question, the similarity search or the generation of the answer fails with message
  \<open>m\<close>, the body has \<open>response_type\<close> \<open>ephemeral\<close> and the text \<open>Error: m\<close>, which
  contains \<open>Error:\<close>.
\<close>

theorem slack_ask_failure:
  "http_status (fst (slack_ask env req w)) = 200 \<and>
   (t \<noteq> [] \<and>
    (getEmbedding env t w = (Inl m, w') \<or>
     (\<exists>e w1. getEmbedding env t w = (Inr e, w1) \<and>
        getSimilarChunks env e 5 w1 = (Inl m, w')) \<or>
     (\<exists>e w1 found w2. getEmbedding env t w = (Inr e, w1) \<and>
        getSimilarChunks env e 5 w1 = (Inr (Some found), w2) \<and> found \<noteq> [] \<and>
        generateResponse env t found w2 = (Inl m, w'))) \<longrightarrow>
    slack_ask env (Some t) w =
      (\<lparr>http_status = 200,
         http_body = \<lparr>response_type = js ''ephemeral'', slack_text = js ''Error: '' @ m\<rparr>\<rparr>,
       emit (ConsoleError [js ''Error processing Slack question:'', m]) w') \<and>
    sublist (js ''Error:'') (slack_text (http_body (fst (slack_ask env (Some t) w)))))"
proof (intro conjI impI)
  show "http_status (fst (slack_ask env req w)) = 200"
    by (simp add: slack_ask_def Let_def split: option.splits sum.splits prod.splits)
next
  assume a: "t \<noteq> [] \<and>
    (getEmbedding env t w = (Inl m, w') \<or>
     (\<exists>e w1. getEmbedding env t w = (Inr e, w1) \<and>
        getSimilarChunks env e 5 w1 = (Inl m, w')) \<or>
     (\<exists>e w1 found w2. getEmbedding env t w = (Inr e, w1) \<and>
        getSimilarChunks env e 5 w1 = (Inr (Some found), w2) \<and> found \<noteq> [] \<and>
        generateResponse env t found w2 = (Inl m, w')))"
  then show r: "slack_ask env (Some t) w =
      (\<lparr>http_status = 200,
         http_body = \<lparr>response_type = js ''ephemeral'', slack_text = js ''Error: '' @ m\<rparr>\<rparr>,
       emit (ConsoleError [js ''Error processing Slack question:'', m]) w')"
    by (auto simp: slack_ask_def Let_def)
  have "js ''Error: '' @ m = [] @ js ''Error:'' @ (js '' '' @ m)" by (simp add: js_def)
  then have "sublist (js ''Error:'') (js ''Error: '' @ m)" unfolding sublist_def by blast
  then show "sublist (js ''Error:'') (slack_text (http_body (fst (slack_ask env (Some t) w))))"
    by (simp add: r)
qed

text \<open>Claim C5 at a question whose embedding fails.\<close>

theorem slack_ask_failure_witness:
  "slack_ask env_embed_fails (Some (js ''b'')) world0 =
     (\<lparr>http_status = 200,
        http_body = \<lparr>response_type = js ''ephemeral'',
                     slack_text = js ''Error: '' @ js ''Error generating embedding: '' @ js ''rate limit''\<rparr>\<rparr>,
      emit (ConsoleError [js ''Error processing Slack question:'',
                          js ''Error generating embedding: '' @ js ''rate limit''])
        (emit (EmbeddingsCreate (js ''b'') embedding_model) world0))"
proof -
  have 1: "js ''b'' \<noteq> []" by (simp add: js_def)
  have 2: "getEmbedding env_embed_fails (js ''b'') world0 =
      (Inl (js ''Error generating embedding: '' @ js ''rate limit''),
       emit (EmbeddingsCreate (js ''b'') embedding_model) world0)"
    by (simp add: getEmbedding_def env_embed_fails_def env_ok_def)
  show ?thesis
    using slack_ask_failure [of env_embed_fails "Some (js ''b'')" world0 "js ''b''"
        "js ''Error generating embedding: '' @ js ''rate limit''"
        "emit (EmbeddingsCreate (js ''b'') embedding_model) world0"] 1 2
    by blast
qed

text \<open>
  Claim C6. When the question is not empty, its embedding succeeds and the similarity
  search answers with no chunks (\<open>null\<close> or an empty list), \<open>/api/ask\<close> responds with
  status 200, the fixed answer and an empty list of chunks, and the only calls made are the
  embedding call and the search: the completion service is not called.
\<close>

theorem ask_no_similar_chunks:
  assumes "q \<noteq> []"
    and "getEmbedding env q w = (Inr e, w1)"
    and "getSimilarChunks env e 5 w1 = (Inr found, w2)"
    and "found = None \<or> found = Some []"
  shows "ask env (Some q) w = (\<lparr>http_status = 200, http_body = Answer no_information []\<rparr>, w2) \<and>
         trace w2 = trace w @ [EmbeddingsCreate q embedding_model, RpcMatchChunks e 5]"
proof -
  have w1: "w1 = emit (EmbeddingsCreate q embedding_model) w"
    using assms(2) by (auto simp: getEmbedding_def split: sum.splits)
  have w2: "w2 = emit (RpcMatchChunks e 5) w1"
    using assms(3) by (auto simp: getSimilarChunks_def split: sum.splits)
  have "ask env (Some q) w = (\<lparr>http_status = 200, http_body = Answer no_information []\<rparr>, w2)"
    using assms by (auto simp: ask_def Let_def)
  then show ?thesis by (simp add: w1 w2 emit_def)
qed

text \<open>Claim C6 at an environment whose search finds nothing.\<close>

theorem ask_no_similar_chunks_witness:
  "ask env_ok (Some (js ''q'')) world0 =
     (\<lparr>http_status = 200, http_body = Answer no_information []\<rparr>,
      emit (RpcMatchChunks [1 / 2] 5) (emit (EmbeddingsCreate (js ''q'') embedding_model) world0))"
proof -
  have 1: "js ''q'' \<noteq> []" by (simp add: js_def)
  have 2: "getEmbedding env_ok (js ''q'') world0 =
      (Inr [1 / 2], emit (EmbeddingsCreate (js ''q'') embedding_model) world0)"
    by (simp add: getEmbedding_def env_ok_def)
  have 3: "getSimilarChunks env_ok [1 / 2] 5 (emit (EmbeddingsCreate (js ''q'') embedding_model) world0) =
      (Inr (Some []), emit (RpcMatchChunks [1 / 2] 5) (emit (EmbeddingsCreate (js ''q'') embedding_model) world0))"
    by (simp add: getSimilarChunks_def env_ok_def)
  show ?thesis using ask_no_similar_chunks [OF 1 2 3] by simp
qed

text \<open>
  Claim C7. \<open>getEmbeddings\<close> calls the embedding service once for each text, in input
  order, each call made after the ones before it. When all calls succeed, the result has
  one embedding for each text and the embedding at index \<open>i\<close> is the answer to the call for
  text \<open>i\<close>. When the call for text \<open>k\<close> fails, no later call is made and the result is
  the error \<open>Error generating embeddings:\<close> with the message of that call. In the upload
  handler such a failure ends the request with status 500 and that message, with both
  tables as they were before the request, and with no call after the failed one but the
  \<open>unlink\<close> of the uploaded file.
\<close>

theorem getEmbeddings_sequential:
  "(case getEmbeddings env chunks w of
      (Inr embeddings, w') \<Rightarrow>
         w' = after_calls w chunks \<and> length embeddings = length chunks \<and>
         (\<forall>i < length chunks.
            embeddings_create env (after_calls w (take i chunks)) (chunks ! i) = Inr (embeddings ! i))
    | (Inl message, w') \<Rightarrow>
         (\<exists>k < length chunks. \<exists>m. w' = after_calls w (take (Suc k) chunks) \<and>
            embeddings_create env (after_calls w (take k chunks)) (chunks ! k) = Inl m \<and>
            message = js ''Error generating embeddings: '' @ m)) \<and>
   (\<forall>file w0 text message w'.
       parseFile env file w0 = (Inr text, w) \<and> chunkText text = Some chunks \<and>
       getEmbeddings env chunks w = (Inl message, w') \<longrightarrow>
       (\<exists>w''. upload env (Some file) w0 =
                 Some (\<lparr>http_status = 500, http_body = ErrorBody message\<rparr>, w'') \<and>
              db_documents w'' = db_documents w0 \<and> db_chunks w'' = db_chunks w0 \<and>
              trace w'' = trace w' @ Unlink (file_path file) #
                (case fs_unlink env w' (file_path file) of None \<Rightarrow> [] | Some e \<Rightarrow> [ConsoleError [e]])))"
proof (intro conjI allI impI)
  show "case getEmbeddings env chunks w of
      (Inr embeddings, w') \<Rightarrow>
         w' = after_calls w chunks \<and> length embeddings = length chunks \<and>
         (\<forall>i < length chunks.
            embeddings_create env (after_calls w (take i chunks)) (chunks ! i) = Inr (embeddings ! i))
    | (Inl message, w') \<Rightarrow>
         (\<exists>k < length chunks. \<exists>m. w' = after_calls w (take (Suc k) chunks) \<and>
            embeddings_create env (after_calls w (take k chunks)) (chunks ! k) = Inl m \<and>
            message = js ''Error generating embeddings: '' @ m)"
    using getEmbeddings_loop_spec [where env = env and chunks = chunks and acc = "[]" and w = w]
    by (auto simp: getEmbeddings_def split: prod.splits sum.splits)
next
  fix upl w0 tx message w'
  assume a: "parseFile env upl w0 = (Inr tx, w) \<and> chunkText tx = Some chunks \<and>
       getEmbeddings env chunks w = (Inl message, w')"
  have t: "db_documents w = db_documents w0" "db_chunks w = db_chunks w0"
    using a parseFile_tables by blast+
  have "\<exists>k. w' = after_calls w k"
    using a getEmbeddings_loop_spec [where env = env and chunks = chunks and acc = "[]" and w = w]
    by (auto simp: getEmbeddings_def split: prod.splits sum.splits)
  then have t': "db_documents w' = db_documents w" "db_chunks w' = db_chunks w"
    by (auto simp: after_calls_tables)
  have "upload env (Some upl) w0 = Some (upload_catch env upl message w')"
    using a by (simp add: upload_def)
  then show "\<exists>w''. upload env (Some upl) w0 =
                 Some (\<lparr>http_status = 500, http_body = ErrorBody message\<rparr>, w'') \<and>
              db_documents w'' = db_documents w0 \<and> db_chunks w'' = db_chunks w0 \<and>
              trace w'' = trace w' @ Unlink (file_path upl) #
                (case fs_unlink env w' (file_path upl) of None \<Rightarrow> [] | Some e \<Rightarrow> [ConsoleError [e]])"
    by (simp add: upload_catch_tables t t')
qed

text \<open>Claim C7 at an environment in which the second of three embeddings fails.\<close>

theorem getEmbeddings_sequential_witness:
  "(\<exists>k < length [js ''a'', js ''b'', js ''c'']. \<exists>m.
      after_calls world0 [js ''a'', js ''b''] =
        after_calls world0 (take (Suc k) [js ''a'', js ''b'', js ''c'']) \<and>
      embeddings_create env_embed_fails (after_calls world0 (take k [js ''a'', js ''b'', js ''c'']))
        ([js ''a'', js ''b'', js ''c''] ! k) = Inl m \<and>
      js ''Error generating embeddings: '' @ js ''rate limit'' = js ''Error generating embeddings: '' @ m) \<and>
   (\<exists>w''. upload env_embed_fails (Some hello_file) world0 =
            Some (\<lparr>http_status = 500,
                    http_body = ErrorBody (js ''Error generating embeddings: '' @ js ''rate limit'')\<rparr>, w'') \<and>
          db_documents w'' = db_documents world0 \<and> db_chunks w'' = db_chunks world0 \<and>
          trace w'' = trace (after_calls (emit (ReadFileUtf8 (file_path hello_file)) world0) [js ''Hello.'']) @
            Unlink (file_path hello_file) #
            (case fs_unlink env_embed_fails
                    (after_calls (emit (ReadFileUtf8 (file_path hello_file)) world0) [js ''Hello.''])
                    (file_path hello_file) of
               None \<Rightarrow> [] | Some e \<Rightarrow> [ConsoleError [e]]))"
proof
  have ab: "js ''a'' \<noteq> js ''b''" "js ''a'' \<noteq> js ''Hello.''" by (simp_all add: js_def)
  have ev: "getEmbeddings env_embed_fails [js ''a'', js ''b'', js ''c''] world0 =
      (Inl (js ''Error generating embeddings: '' @ js ''rate limit''), after_calls world0 [js ''a'', js ''b''])"
    using ab by (simp add: getEmbeddings_def env_embed_fails_def env_ok_def emit_embedding_call
        after_calls_after_calls)
  show "\<exists>k < length [js ''a'', js ''b'', js ''c'']. \<exists>m.
      after_calls world0 [js ''a'', js ''b''] =
        after_calls world0 (take (Suc k) [js ''a'', js ''b'', js ''c'']) \<and>
      embeddings_create env_embed_fails (after_calls world0 (take k [js ''a'', js ''b'', js ''c'']))
        ([js ''a'', js ''b'', js ''c''] ! k) = Inl m \<and>
      js ''Error generating embeddings: '' @ js ''rate limit'' = js ''Error generating embeddings: '' @ m"
    using getEmbeddings_sequential [where env = env_embed_fails
        and chunks = "[js ''a'', js ''b'', js ''c'']" and w = world0, THEN conjunct1]
    unfolding ev by (simp only: prod.case sum.case)
next
  let ?w1 = "emit (ReadFileUtf8 (file_path hello_file)) world0"
  have p: "parseFile env_embed_fails hello_file world0 = (Inr (js ''Hello.''), ?w1)"
    by (rule parse_hello) (simp_all add: env_embed_fails_def env_ok_def)
  have g: "getEmbeddings env_embed_fails [js ''Hello.''] ?w1 =
      (Inl (js ''Error generating embeddings: '' @ js ''rate limit''), after_calls ?w1 [js ''Hello.''])"
    by (simp add: getEmbeddings_def env_embed_fails_def env_ok_def emit_embedding_call)
  show "\<exists>w''. upload env_embed_fails (Some hello_file) world0 =
            Some (\<lparr>http_status = 500,
                    http_body = ErrorBody (js ''Error generating embeddings: '' @ js ''rate limit'')\<rparr>, w'') \<and>
          db_documents w'' = db_documents world0 \<and> db_chunks w'' = db_chunks world0 \<and>
          trace w'' = trace (after_calls ?w1 [js ''Hello.'']) @
            Unlink (file_path hello_file) #
            (case fs_unlink env_embed_fails (after_calls ?w1 [js ''Hello.'']) (file_path hello_file) of
               None \<Rightarrow> [] | Some e \<Rightarrow> [ConsoleError [e]])"
    by (rule getEmbeddings_sequential [where env = env_embed_fails
        and chunks = "[js ''Hello.'']" and w = ?w1, THEN conjunct2, rule_format,
        OF conjI [OF p conjI [OF hello_chunks g]]])
qed

text \<open>
  Claim C9, as amended. Every run of \<open>generateResponse\<close> makes exactly one call to the
  completion service, and the request always carries the same fixed values: the model
  \<open>gpt-4\<close>, the temperature 0.7 and the output cap of 500 tokens.
\<close>

theorem generateResponse_request_parameters:
  "\<exists>request. trace (snd (generateResponse env question contexts w)) =
        trace w @ [ChatCompletionsCreate request] \<and>
      req_model request = js ''gpt-4'' \<and>
      req_temperature request = 7 / 10 \<and>
      req_max_tokens request = 500"
  by (simp add: generateResponse_def Let_def emit_def split: sum.splits)

text \<open>
  Claim C9 as stated fails on the low temperature: the one request made for a question
  carries the temperature 0.7, which is not the deterministic setting 0 and lies above
  1/2, on the service's scale from 0 to 2.
\<close>

theorem generateResponse_request_parameters_counterexample:
  "trace (snd (generateResponse env_ok (js ''q'')
       [\<lparr>match_content = js ''c'', match_similarity = 1\<rparr>] world0)) =
     [ChatCompletionsCreate
        \<lparr>req_model = js ''gpt-4'',
         req_messages =
           [\<lparr>msg_role = js ''system'', msg_content = system_content\<rparr>,
            \<lparr>msg_role = js ''user'',
             msg_content = build_prompt (js ''q'') [\<lparr>match_content = js ''c'', match_similarity = 1\<rparr>]\<rparr>],
         req_temperature = 7 / 10,
         req_max_tokens = 500\<rparr>] \<and>
   (0 :: rat) < 7 / 10 \<and> (1 / 2 :: rat) < 7 / 10"
  by (simp add: generateResponse_def Let_def emit_def world0_def env_ok_def)

end
